theory Spec2Isabelle
  imports Main
begin

section \<open>The statement tree\<close>

text \<open>
  The model follows \<^verbatim>\<open>src/core/parser/duckpgq_parser.cpp\<close>. The C++ mutates the parsed
  statement tree and the session state in place and signals failure by throwing; here
  every function takes the node and the state and returns the outcome (an error or the
  returned value) together with the node and the state as they are when control leaves
  the function, also when it leaves by an exception.

  Owning pointers of the tree are taken as non-null, as the code itself does when it
  dereferences them unchecked. The one null the code produces itself, the child slot of
  a function expression after \<^verbatim>\<open>std::move\<close>, is modelled: a child slot is an option.
\<close>

datatype Value = INTEGER int | VARCHAR string

text \<open>
  Parsed expressions, as far as the code looks at them: the function expression with its
  name and its child slots, the graph-match expression with its alias (the pattern is
  carried as an opaque property-graph name), the constant and, standing for every other
  class of expression, the column reference.
\<close>

datatype parsed_expression =
    FunctionExpression (function_name: string) (children: "parsed_expression option list")
  | MatchExpression (match_alias: string) (pg_name: string)
  | ConstantExpression Value
  | ColumnRefExpression string

text \<open>
  Modelled from the spec: the modes of a show/describe meta-reference (the enum
  \<^verbatim>\<open>ShowType\<close> is declared in DuckDB's showref.hpp): summary, describe, and any other
  mode, numbered.
\<close>

datatype show_type = SUMMARY | DESCRIBE | OTHER_SHOW_TYPE nat

datatype table_reference_type =
    TABLE_FUNCTION | SUBQUERY | JOIN | BASE_TABLE | EXPRESSION_LIST | CTE | EMPTY_FROM
  | PIVOT | SHOW_REF | COLUMN_DATA | DELIM_GET | BOUND_TABLE_REF | INVALID

datatype statement_type =
    SELECT_STATEMENT | CREATE_STATEMENT | DROP_STATEMENT | EXPLAIN_STATEMENT
  | COPY_STATEMENT | INSERT_STATEMENT | UPDATE_STATEMENT | DELETE_STATEMENT
  | PRAGMA_STATEMENT

datatype catalog_type = TABLE_ENTRY | VIEW_ENTRY | SCHEMA_ENTRY | PROPERTY_GRAPH_ENTRY

record drop_info =
  drop_type :: catalog_type
  drop_name :: string
  if_not_found_ignore :: bool

text \<open>
  Table references, query nodes and statements are mutually recursive: a subquery
  reference owns a select statement, a select node owns its FROM target and its CTE map
  (an insertion-ordered map, here an association list in insertion order), and a CTE
  owns a statement. The payload of a CREATE statement is a create-property-graph
  descriptor, the descriptor of a CREATE TABLE ... AS with its query, or (standing for
  every other payload) that of a view.
\<close>

datatype table_ref =
    TableFunctionRef (tf_alias: string) (tf_function: parsed_expression)
  | SubqueryRef (subquery: select_statement)
  | JoinRef (left: table_ref) (right: table_ref)
  | BaseTableRef (table_name: string)
  | ExpressionListRef
  | CTERef string
  | EmptyFromRef
  | PivotRef
  | ShowRef (show_type: show_type) (show_table_name: string)
  | ColumnDataRef
  | DelimGetRef
  | BoundTableRef
  | InvalidRef
and query_node =
    SelectNode (from_table: table_ref) (cte_map: "(string \<times> sql_statement) list")
  | CTENode (ctename: string) (cte_query: query_node) (child: query_node)
  | SetOperationNode query_node query_node
  | RecursiveCTENode string query_node query_node
and select_statement =
    SelectStatement (node: query_node)
and create_info =
    CreatePropertyGraphInfo (property_graph_name: string)
  | CreateTableInfo (ct_table: string) (ct_query: select_statement)
  | CreateViewInfo string select_statement
and sql_statement =
    SelectStmt select_statement
  | CreateStmt (info: create_info)
  | DropStmt drop_info
  | ExplainStmt (stmt: sql_statement)
  | CopyStmt (copy_select_statement: query_node)
  | InsertStmt (ins_table: string) (ins_select_statement: select_statement)
  | UpdateStmt
  | DeleteStmt
  | PragmaStmt

fun tableref_type :: "table_ref \<Rightarrow> table_reference_type" where
  "tableref_type (TableFunctionRef _ _) = TABLE_FUNCTION"
| "tableref_type (SubqueryRef _) = SUBQUERY"
| "tableref_type (JoinRef _ _) = JOIN"
| "tableref_type (BaseTableRef _) = BASE_TABLE"
| "tableref_type ExpressionListRef = EXPRESSION_LIST"
| "tableref_type (CTERef _) = CTE"
| "tableref_type EmptyFromRef = EMPTY_FROM"
| "tableref_type PivotRef = PIVOT"
| "tableref_type (ShowRef _ _) = SHOW_REF"
| "tableref_type ColumnDataRef = COLUMN_DATA"
| "tableref_type DelimGetRef = DELIM_GET"
| "tableref_type BoundTableRef = BOUND_TABLE_REF"
| "tableref_type InvalidRef = INVALID"

fun stmt_type :: "sql_statement \<Rightarrow> statement_type" where
  "stmt_type (SelectStmt _) = SELECT_STATEMENT"
| "stmt_type (CreateStmt _) = CREATE_STATEMENT"
| "stmt_type (DropStmt _) = DROP_STATEMENT"
| "stmt_type (ExplainStmt _) = EXPLAIN_STATEMENT"
| "stmt_type (CopyStmt _) = COPY_STATEMENT"
| "stmt_type (InsertStmt _ _) = INSERT_STATEMENT"
| "stmt_type UpdateStmt = UPDATE_STATEMENT"
| "stmt_type DeleteStmt = DELETE_STATEMENT"
| "stmt_type PragmaStmt = PRAGMA_STATEMENT"

section \<open>Errors, the plan directive and the correlation state\<close>

text \<open>
  The exceptions of the source, named as the specification names them:
  \<^item> \<open>MultipleStatements\<close>: \<^verbatim>\<open>Exception(PARSER, "More than one statement detected, ...")\<close>;
  \<^item> \<open>UnsupportedConstruct\<close>: \<^verbatim>\<open>BinderException("MATCH statement is not yet supported ...")\<close>;
  \<^item> \<open>UnrecognizedMode\<close>: \<^verbatim>\<open>BinderException("Unknown show type %s found.", show_type)\<close>;
  \<^item> \<open>MustUseBindEntryPoint\<close>: \<^verbatim>\<open>Exception(BINDER, "use duckpgq_bind instead")\<close>;
  \<^item> \<open>NotImplemented\<close>: \<^verbatim>\<open>Exception(NOT_IMPLEMENTED, StatementTypeToString(type) + ...)\<close>;
  \<^item> \<open>SyntaxError\<close>: whatever the grammar parser throws.
  The remaining four are the failures of DuckDB's checked accessors and of the language:
  a downcast to the wrong class, a null owning pointer dereferenced, a vector indexed
  out of range, and the increment of a signed 32-bit counter at its maximum (undefined
  behaviour in C++; it ends the run here, so that no theorem depends on what follows).
\<close>

datatype error =
    MultipleStatements
  | UnsupportedConstruct
  | UnrecognizedMode show_type
  | MustUseBindEntryPoint
  | NotImplemented statement_type
  | SyntaxError string
  | InvalidCast
  | NullDereference
  | IndexOutOfBounds
  | SignedOverflow

text \<open>
  Modelled from the spec: the four downstream operation descriptors (constructed by
  \<^verbatim>\<open>CreatePropertyGraphFunction()\<close> and its siblings, declared outside this file) are
  bound operations; a default-constructed \<^verbatim>\<open>TableFunction\<close> has no bind callback.
\<close>

datatype table_function =
    NoFunction
  | SummarizePropertyGraphFunction
  | DescribePropertyGraphFunction
  | CreatePropertyGraphFunction
  | DropPropertyGraphFunction

definition bind_is_null :: "table_function \<Rightarrow> bool" where
  "bind_is_null f = (f = NoFunction)"

datatype statement_return_type = QUERY_RESULT | CHANGED_ROWS | NOTHING

record plan_result =
  plan_function :: table_function
  parameters :: "Value list"
  requires_valid_transaction :: bool
  return_type :: statement_return_type

text \<open>
  The default-constructed \<^verbatim>\<open>ParserExtensionPlanResult\<close> (\<^verbatim>\<open>return {}\<close>): no function, no
  parameters, and the member initialisers of DuckDB's declaration.
\<close>

definition empty_plan_result :: plan_result where
  "empty_plan_result =
     \<lparr>plan_function = NoFunction, parameters = [], requires_valid_transaction = True,
      return_type = NOTHING\<rparr>"

text \<open>
  Modelled from the spec: the two fields of the Correlation State that this file reads
  and writes (the class \<^verbatim>\<open>DuckPGQState\<close> is declared in duckpgq_state.hpp): the counter
  \<open>match_index\<close>, which starts at 0, and the map \<open>transform_expression\<close> from indices to
  the match expressions taken out of the tree. The source reads the counter into an
  \<^verbatim>\<open>int32_t\<close>; its values are integers up to \<open>INT32_MAX\<close>.
\<close>

record duckpgq_state =
  match_index :: int
  transform_expression :: "int \<rightharpoonup> parsed_expression"

definition fresh_state :: duckpgq_state where
  "fresh_state = \<lparr>match_index = 0, transform_expression = Map.empty\<rparr>"

definition INT32_MAX :: int where
  "INT32_MAX = 2147483647"

section \<open>The Correlation State's allocation (lines 46 and 47)\<close>

text \<open>
  \<^verbatim>\<open>int32_t match_index = duckpgq_state.match_index++;\<close>
  \<^verbatim>\<open>duckpgq_state.transform_expression[match_index] = std::move(function.children[0]);\<close>
  The assignment through \<^verbatim>\<open>operator[]\<close> inserts or overwrites. The post-increment of a
  signed 32-bit counter that stands at \<open>INT32_MAX\<close> is undefined behaviour; the model
  stops there with \<open>SignedOverflow\<close>, and an allocation that returns an index is a
  successful one.
\<close>

definition allocate :: "parsed_expression \<Rightarrow> duckpgq_state \<Rightarrow> error + (int \<times> duckpgq_state)" where
  "allocate e st =
     (if match_index st = INT32_MAX then Inl SignedOverflow
      else Inr (match_index st,
                st\<lparr>match_index := match_index st + 1,
                   transform_expression := (transform_expression st)(match_index st \<mapsto> e)\<rparr>))"

section \<open>The Match Locator on a table-function call (lines 39 to 52)\<close>

text \<open>
  The steps in the order of the source: the cast of the call's function to a function
  expression, the test of its name, the read of \<open>children[0]\<close> as a match expression
  (bounds check, dereference, cast), the copy of its alias onto the call, the
  allocation, the move out of slot 0, \<open>pop_back\<close> and \<open>push_back\<close> of the constant.
  \<open>pop_back\<close> removes the last slot, whichever it is.
\<close>

definition rewrite_children ::
  "parsed_expression option list \<Rightarrow> int \<Rightarrow> parsed_expression option list" where
  "rewrite_children cs match_idx =
     butlast (cs[0 := None]) @ [Some (ConstantExpression (INTEGER match_idx))]"

fun find_match_table_function ::
  "string \<Rightarrow> parsed_expression \<Rightarrow> duckpgq_state \<Rightarrow> (error + unit) \<times> table_ref \<times> duckpgq_state" where
  "find_match_table_function a (FunctionExpression name cs) st =
     (if name \<noteq> ''duckpgq_match'' then (Inr (), TableFunctionRef a (FunctionExpression name cs), st)
      else (case cs of
              [] \<Rightarrow> (Inl IndexOutOfBounds, TableFunctionRef a (FunctionExpression name cs), st)
            | None # _ \<Rightarrow> (Inl NullDereference, TableFunctionRef a (FunctionExpression name cs), st)
            | Some (MatchExpression m_alias pg) # _ \<Rightarrow>
                (case allocate (MatchExpression m_alias pg) st of
                   Inl e \<Rightarrow> (Inl e, TableFunctionRef m_alias (FunctionExpression name cs), st)
                 | Inr (match_idx, st') \<Rightarrow>
                     (Inr (),
                      TableFunctionRef m_alias
                        (FunctionExpression name (rewrite_children cs match_idx)),
                      st'))
            | Some _ # _ \<Rightarrow> (Inl InvalidCast, TableFunctionRef a (FunctionExpression name cs), st)))"
| "find_match_table_function a f st = (Inl InvalidCast, TableFunctionRef a f, st)"

section \<open>The Show/Describe Handler (lines 83 to 98)\<close>

fun duckpgq_parse_showref :: "table_ref \<Rightarrow> duckpgq_state \<Rightarrow> error + plan_result" where
  "duckpgq_parse_showref (ShowRef t name) st =
     (let result = empty_plan_result\<lparr>requires_valid_transaction := True,
                                     return_type := QUERY_RESULT\<rparr>
      in if t = SUMMARY
         then Inr (result\<lparr>plan_function := SummarizePropertyGraphFunction,
                          parameters := parameters result @ [VARCHAR name]\<rparr>)
         else if t = DESCRIBE
         then Inr (result\<lparr>plan_function := DescribePropertyGraphFunction\<rparr>)
         else Inl (UnrecognizedMode t))"
| "duckpgq_parse_showref _ st = Inl InvalidCast"

section \<open>The Match Locator and the Statement Locator (lines 37 to 81 and 100 to 134)\<close>

text \<open>
  \<open>find_match_in_cte_map\<close> is the loop over the CTE map, which the source writes out
  twice (lines 106 to 114 and 122 to 130): an entry whose statement is not a select is
  skipped, the body's query node is cast to a select node (the cast fails on any other
  node), and the Match Locator runs on the body's FROM target.
\<close>

function (sequential)
  duckpgq_find_match_function ::
    "table_ref \<Rightarrow> duckpgq_state \<Rightarrow> (error + unit) \<times> table_ref \<times> duckpgq_state"
  and duckpgq_find_select_statement ::
    "select_statement \<Rightarrow> duckpgq_state \<Rightarrow> (error + plan_result) \<times> select_statement \<times> duckpgq_state"
  and find_match_in_cte_map ::
    "(string \<times> sql_statement) list \<Rightarrow> duckpgq_state
       \<Rightarrow> (error + unit) \<times> (string \<times> sql_statement) list \<times> duckpgq_state"
where
  "duckpgq_find_match_function (TableFunctionRef a f) st = find_match_table_function a f st"
| "duckpgq_find_match_function (SubqueryRef sq) st =
     (case duckpgq_find_select_statement sq st of
        (Inl e, sq', st') \<Rightarrow> (Inl e, SubqueryRef sq', st')
      | (Inr _, sq', st') \<Rightarrow> (Inr (), SubqueryRef sq', st'))"
| "duckpgq_find_match_function (JoinRef l r) st =
     (case duckpgq_find_match_function l st of
        (Inl e, l', st') \<Rightarrow> (Inl e, JoinRef l' r, st')
      | (Inr _, l', st') \<Rightarrow>
          (case duckpgq_find_match_function r st' of
             (res, r', st'') \<Rightarrow> (res, JoinRef l' r', st'')))"
| "duckpgq_find_match_function (BaseTableRef name) st = (Inr (), BaseTableRef name, st)"
| "duckpgq_find_match_function other st = (Inl UnsupportedConstruct, other, st)"
| "duckpgq_find_select_statement (SelectStatement (SelectNode ft ctes)) st =
     (if tableref_type ft = SHOW_REF
      then (duckpgq_parse_showref ft st, SelectStatement (SelectNode ft ctes), st)
      else (case find_match_in_cte_map ctes st of
              (Inl e, ctes', st') \<Rightarrow> (Inl e, SelectStatement (SelectNode ft ctes'), st')
            | (Inr _, ctes', st') \<Rightarrow>
                (case duckpgq_find_match_function ft st' of
                   (Inl e, ft', st'') \<Rightarrow> (Inl e, SelectStatement (SelectNode ft' ctes'), st'')
                 | (Inr _, ft', st'') \<Rightarrow>
                     (Inr empty_plan_result, SelectStatement (SelectNode ft' ctes'), st''))))"
| "duckpgq_find_select_statement (SelectStatement (CTENode name q (SelectNode ft ctes))) st =
     (case find_match_in_cte_map ctes st of
        (Inl e, ctes', st') \<Rightarrow>
          (Inl e, SelectStatement (CTENode name q (SelectNode ft ctes')), st')
      | (Inr _, ctes', st') \<Rightarrow>
          (case duckpgq_find_match_function ft st' of
             (Inl e, ft', st'') \<Rightarrow>
               (Inl e, SelectStatement (CTENode name q (SelectNode ft' ctes')), st'')
           | (Inr _, ft', st'') \<Rightarrow>
               (Inr empty_plan_result,
                SelectStatement (CTENode name q (SelectNode ft' ctes')), st'')))"
| "duckpgq_find_select_statement statement st = (Inr empty_plan_result, statement, st)"
| "find_match_in_cte_map [] st = (Inr (), [], st)"
| "find_match_in_cte_map ((name, SelectStmt (SelectStatement (SelectNode ft ctes))) # rest) st =
     (case duckpgq_find_match_function ft st of
        (Inl e, ft', st') \<Rightarrow>
          (Inl e, (name, SelectStmt (SelectStatement (SelectNode ft' ctes))) # rest, st')
      | (Inr _, ft', st') \<Rightarrow>
          (case find_match_in_cte_map rest st' of
             (res, rest', st'') \<Rightarrow>
               (res, (name, SelectStmt (SelectStatement (SelectNode ft' ctes))) # rest', st'')))"
| "find_match_in_cte_map ((name, SelectStmt sel) # rest) st =
     (Inl InvalidCast, (name, SelectStmt sel) # rest, st)"
| "find_match_in_cte_map ((name, other) # rest) st =
     (case find_match_in_cte_map rest st of
        (res, rest', st') \<Rightarrow> (res, (name, other) # rest', st'))"
  by pat_completeness auto

termination duckpgq_find_match_function
  by (relation "measure (\<lambda>x. case x of
            Inl (t, _) \<Rightarrow> size t
          | Inr (Inl (s, _)) \<Rightarrow> size s
          | Inr (Inr (cs, _)) \<Rightarrow> size_list (size_prod (\<lambda>_. 0) size) cs)")
     auto

section \<open>The Statement Dispatcher (lines 136 to 181)\<close>

text \<open>
  \<open>handle_select\<close> is the branch of lines 137 to 144. The dispatcher calls itself on the
  query of a CREATE TABLE ... AS and on the select of an INSERT; both are select
  statements, so each of these calls takes that branch and nothing else.
\<close>

definition handle_select ::
  "select_statement \<Rightarrow> duckpgq_state \<Rightarrow> (error + plan_result) \<times> select_statement \<times> duckpgq_state" where
  "handle_select select_statement st =
     (case duckpgq_find_select_statement select_statement st of
        (Inl e, sel', st') \<Rightarrow> (Inl e, sel', st')
      | (Inr result, sel', st') \<Rightarrow>
          if bind_is_null (plan_function result)
          then (Inl MustUseBindEntryPoint, sel', st')
          else (Inr result, sel', st'))"

text \<open>
  One equation for each path through the chain of \<^verbatim>\<open>if (statement.type == ...)\<close>. A
  branch that does not return or throw (CREATE TABLE ... AS, EXPLAIN, INSERT) falls
  through the tests that follow it, none of which matches its type, to the final throw.
  In the COPY branch the \<^verbatim>\<open>dynamic_cast\<close> of a source that is not a select node gives a
  null pointer, which the next line dereferences.
\<close>

fun duckpgq_handle_statement ::
  "sql_statement \<Rightarrow> duckpgq_state \<Rightarrow> (error + plan_result) \<times> sql_statement \<times> duckpgq_state" where
  "duckpgq_handle_statement (SelectStmt sel) st =
     (case handle_select sel st of (res, sel', st') \<Rightarrow> (res, SelectStmt sel', st'))"
| "duckpgq_handle_statement (CreateStmt (CreatePropertyGraphInfo name)) st =
     (Inr (empty_plan_result\<lparr>plan_function := CreatePropertyGraphFunction,
                             requires_valid_transaction := True,
                             return_type := QUERY_RESULT\<rparr>),
      CreateStmt (CreatePropertyGraphInfo name), st)"
| "duckpgq_handle_statement (CreateStmt (CreateTableInfo table q)) st =
     (case handle_select q st of
        (Inl e, q', st') \<Rightarrow> (Inl e, CreateStmt (CreateTableInfo table q'), st')
      | (Inr _, q', st') \<Rightarrow>
          (Inl (NotImplemented CREATE_STATEMENT), CreateStmt (CreateTableInfo table q'), st'))"
| "duckpgq_handle_statement (CreateStmt other) st = (Inl InvalidCast, CreateStmt other, st)"
| "duckpgq_handle_statement (DropStmt d) st =
     (Inr (empty_plan_result\<lparr>plan_function := DropPropertyGraphFunction,
                             requires_valid_transaction := True,
                             return_type := QUERY_RESULT\<rparr>),
      DropStmt d, st)"
| "duckpgq_handle_statement (ExplainStmt inner) st =
     (case duckpgq_handle_statement inner st of
        (Inl e, inner', st') \<Rightarrow> (Inl e, ExplainStmt inner', st')
      | (Inr _, inner', st') \<Rightarrow>
          (Inl (NotImplemented EXPLAIN_STATEMENT), ExplainStmt inner', st'))"
| "duckpgq_handle_statement (CopyStmt (SelectNode ft ctes)) st =
     (case duckpgq_find_match_function ft st of
        (Inl e, ft', st') \<Rightarrow> (Inl e, CopyStmt (SelectNode ft' ctes), st')
      | (Inr _, ft', st') \<Rightarrow> (Inl MustUseBindEntryPoint, CopyStmt (SelectNode ft' ctes), st'))"
| "duckpgq_handle_statement (CopyStmt other) st = (Inl NullDereference, CopyStmt other, st)"
| "duckpgq_handle_statement (InsertStmt table sel) st =
     (case handle_select sel st of
        (Inl e, sel', st') \<Rightarrow> (Inl e, InsertStmt table sel', st')
      | (Inr _, sel', st') \<Rightarrow>
          (Inl (NotImplemented INSERT_STATEMENT), InsertStmt table sel', st'))"
| "duckpgq_handle_statement statement st = (Inl (NotImplemented (stmt_type statement)), statement, st)"

section \<open>The parse hook (lines 27 to 35)\<close>

text \<open>
  The grammar parser is outside this file and is a parameter: it maps the text to the
  statements it holds, or fails with a message. \<^verbatim>\<open>query[0]\<close> of an empty string is the
  terminating null character, so an empty text is parsed as it is.
\<close>

datatype parse_data = DuckPGQParseData (statement: sql_statement)

definition strip_marker :: "string \<Rightarrow> string" where
  "strip_marker query = (case query of [] \<Rightarrow> query | c # rest \<Rightarrow> if c = CHR ''-'' then rest else query)"

definition duckpgq_parse :: "(string \<Rightarrow> string + sql_statement list) \<Rightarrow> string \<Rightarrow> error + parse_data" where
  "duckpgq_parse ParseQuery query =
     (case ParseQuery (strip_marker query) of
        Inl msg \<Rightarrow> Inl (SyntaxError msg)
      | Inr statements \<Rightarrow>
          if length statements \<noteq> 1 then Inl MultipleStatements
          else Inr (DuckPGQParseData (statements ! 0)))"

section \<open>Sequences of allocations\<close>

text \<open>A session's allocations one after the other, stopping at the first that fails.\<close>

fun allocate_all ::
  "parsed_expression list \<Rightarrow> duckpgq_state \<Rightarrow> error + (int list \<times> duckpgq_state)" where
  "allocate_all [] st = Inr ([], st)"
| "allocate_all (e # es) st =
     (case allocate e st of
        Inl err \<Rightarrow> Inl err
      | Inr (i, st') \<Rightarrow>
          (case allocate_all es st' of
             Inl err \<Rightarrow> Inl err
           | Inr (rest, st'') \<Rightarrow> Inr (i # rest, st'')))"

section \<open>Shapes used in the statements\<close>

text \<open>
  A graph-match call as the grammar builds it: a table-function call named \<open>a\<close> whose
  function is \<^verbatim>\<open>duckpgq_match\<close> with the match expression as its only child. And the call
  the Match Locator leaves behind: the alias of the match expression on the call, the
  index as the only child.
\<close>

definition match_call :: "string \<Rightarrow> string \<Rightarrow> string \<Rightarrow> table_ref" where
  "match_call a A pg =
     TableFunctionRef a (FunctionExpression ''duckpgq_match'' [Some (MatchExpression A pg)])"

definition indexed_call :: "string \<Rightarrow> int \<Rightarrow> table_ref" where
  "indexed_call A match_idx =
     TableFunctionRef A
       (FunctionExpression ''duckpgq_match'' [Some (ConstantExpression (INTEGER match_idx))])"

text \<open>A grammar parser that finds no statement in any text (as in an empty text).\<close>

definition no_statements :: "string \<Rightarrow> string + sql_statement list" where
  "no_statements q = Inr []"

text \<open>Grammar parsers that find one statement, and two, in any text.\<close>

definition one_statement :: "string \<Rightarrow> string + sql_statement list" where
  "one_statement q = Inr [PragmaStmt]"

definition two_statements :: "string \<Rightarrow> string + sql_statement list" where
  "two_statements q = Inr [PragmaStmt, DeleteStmt]"

text \<open>The three directives the dispatcher and the show handler build, written out.\<close>

definition summarize_directive :: "string \<Rightarrow> plan_result" where
  "summarize_directive name =
     \<lparr>plan_function = SummarizePropertyGraphFunction, parameters = [VARCHAR name],
      requires_valid_transaction = True, return_type = QUERY_RESULT\<rparr>"

definition describe_directive :: plan_result where
  "describe_directive =
     \<lparr>plan_function = DescribePropertyGraphFunction, parameters = [],
      requires_valid_transaction = True, return_type = QUERY_RESULT\<rparr>"

definition drop_directive :: plan_result where
  "drop_directive =
     \<lparr>plan_function = DropPropertyGraphFunction, parameters = [],
      requires_valid_transaction = True, return_type = QUERY_RESULT\<rparr>"

section \<open>The graph-match calls of a FROM target\<close>










section \<open>Allocation\<close>

lemma allocate_Inr:
  "match_index st \<noteq> INT32_MAX \<Longrightarrow>
   allocate e st =
     Inr (match_index st,
          st\<lparr>match_index := match_index st + 1,
             transform_expression := (transform_expression st)(match_index st \<mapsto> e)\<rparr>)"
  by (simp add: allocate_def)

lemma allocate_InrD:
  "allocate e st = Inr (i, st') \<Longrightarrow>
   i = match_index st \<and> match_index st \<noteq> INT32_MAX \<and>
   st' = st\<lparr>match_index := match_index st + 1,
            transform_expression := (transform_expression st)(match_index st \<mapsto> e)\<rparr>"
  by (auto simp: allocate_def split: if_splits)

lemma match_call_located:
  "allocate (MatchExpression A pg) st = Inr (i, st') \<Longrightarrow>
   duckpgq_find_match_function (match_call a A pg) st = (Inr (), indexed_call A i, st')"
  by (simp add: match_call_def indexed_call_def rewrite_children_def)

section \<open>The rewrite of a graph-match call\<close>

text \<open>
  Claim C1. Take a table-function call whose function is \<^verbatim>\<open>duckpgq_match\<close> and whose only
  child is a match expression with alias \<open>A\<close>, in any state whose counter is not at its
  maximum. The Match Locator returns normally; the call then has the alias \<open>A\<close>, the
  match expression is gone from its children, its only child is the integer constant of
  the index that the Correlation State assigns (the value of the counter on entry), the
  counter is one higher, and the map \<open>transform_expression\<close> holds the match expression at
  that index.
\<close>

theorem match_call_rewrite:
  assumes "match_index st \<noteq> INT32_MAX"
  shows "duckpgq_find_match_function
           (TableFunctionRef a (FunctionExpression ''duckpgq_match'' [Some (MatchExpression A pg)])) st
         = (Inr (),
            TableFunctionRef A
              (FunctionExpression ''duckpgq_match''
                 [Some (ConstantExpression (INTEGER (match_index st)))]),
            st\<lparr>match_index := match_index st + 1,
               transform_expression :=
                 (transform_expression st)(match_index st \<mapsto> MatchExpression A pg)\<rparr>)
       \<and> allocate (MatchExpression A pg) st
         = Inr (match_index st,
                st\<lparr>match_index := match_index st + 1,
                   transform_expression :=
                     (transform_expression st)(match_index st \<mapsto> MatchExpression A pg)\<rparr>)"
  using assms by (simp add: allocate_def rewrite_children_def)

theorem match_call_rewrite_witness:
  "match_index fresh_state \<noteq> INT32_MAX
   \<and> duckpgq_find_match_function
        (TableFunctionRef '''' (FunctionExpression ''duckpgq_match'' [Some (MatchExpression ''g'' ''snb'')]))
        fresh_state
     = (Inr (),
        TableFunctionRef ''g''
          (FunctionExpression ''duckpgq_match'' [Some (ConstantExpression (INTEGER 0))]),
        \<lparr>match_index = 1, transform_expression = [0 \<mapsto> MatchExpression ''g'' ''snb'']\<rparr>)"
proof -
  have h: "match_index fresh_state \<noteq> INT32_MAX"
    by (simp add: fresh_state_def INT32_MAX_def)
  from match_call_rewrite [OF h, of "''''" "''g''" "''snb''"] h show ?thesis
    by (simp add: fresh_state_def allocate_def rewrite_children_def INT32_MAX_def)
qed

section \<open>Indices of a session\<close>

lemma allocate_all_from:
  "allocate_all es st = Inr (idxs, st') \<Longrightarrow>
     idxs = map (\<lambda>i. match_index st + int i) [0..<length es]
   \<and> match_index st' = match_index st + int (length es)
   \<and> (\<forall>i<length es. transform_expression st' (match_index st + int i) = Some (es ! i))
   \<and> (\<forall>k<match_index st. transform_expression st' k = transform_expression st k)"
proof (induction es arbitrary: st idxs)
  case Nil
  then show ?case by simp
next
  case (Cons e es)
  from Cons.prems obtain i st1 js where
    a: "allocate e st = Inr (i, st1)" and r: "allocate_all es st1 = Inr (js, st')"
    and idxs: "idxs = i # js"
    by (auto split: sum.splits prod.splits)
  from allocate_InrD [OF a] have i: "i = match_index st"
    and st1: "st1 = st\<lparr>match_index := match_index st + 1,
            transform_expression := (transform_expression st)(match_index st \<mapsto> e)\<rparr>"
    by simp_all
  have m1: "match_index st1 = match_index st + 1" by (simp add: st1)
  note IH = Cons.IH [OF r]
  have js: "js = map (\<lambda>i. match_index st + int i) [1..<Suc (length es)]"
  proof -
    have "js = map (\<lambda>i. match_index st1 + int i) [0..<length es]" using IH by simp
    also have "\<dots> = map (\<lambda>i. match_index st + int (Suc i)) [0..<length es]"
      by (simp add: m1)
    also have "\<dots> = map (\<lambda>i. match_index st + int i) (map Suc [0..<length es])"
      by (simp add: comp_def)
    also have "map Suc [0..<length es] = [1..<Suc (length es)]"
      by (simp add: map_Suc_upt)
    finally show ?thesis .
  qed
  have p1: "idxs = map (\<lambda>i. match_index st + int i) [0..<length (e # es)]"
    by (simp add: idxs i js upt_conv_Cons del: upt_Suc)
  have p2: "match_index st' = match_index st + int (length (e # es))"
    using IH m1 by simp
  have low: "transform_expression st' (match_index st) = Some e"
  proof -
    have "transform_expression st' (match_index st) = transform_expression st1 (match_index st)"
      using IH m1 by simp
    then show ?thesis by (simp add: st1)
  qed
  have p3: "\<forall>j<length (e # es). transform_expression st' (match_index st + int j) = Some ((e # es) ! j)"
  proof (intro allI impI)
    fix j assume j: "j < length (e # es)"
    show "transform_expression st' (match_index st + int j) = Some ((e # es) ! j)"
    proof (cases j)
      case 0
      then show ?thesis using low by simp
    next
      case (Suc j')
      with j have "j' < length es" by simp
      with IH have "transform_expression st' (match_index st1 + int j') = Some (es ! j')" by blast
      then show ?thesis by (simp add: Suc m1 add.commute add.left_commute)
    qed
  qed
  have p4: "\<forall>k<match_index st. transform_expression st' k = transform_expression st k"
  proof (intro allI impI)
    fix k assume k: "k < match_index st"
    then have "transform_expression st' k = transform_expression st1 k" using IH m1 by simp
    also have "\<dots> = transform_expression st k" using k by (simp add: st1)
    finally show "transform_expression st' k = transform_expression st k" .
  qed
  from p1 p2 p3 p4 show ?case by blast
qed

lemma allocate_all_succeeds:
  "match_index st + int (length es) \<le> INT32_MAX \<Longrightarrow> \<exists>idxs st'. allocate_all es st = Inr (idxs, st')"
proof (induction es arbitrary: st)
  case Nil
  then show ?case by simp
next
  case (Cons e es)
  then have ne: "match_index st \<noteq> INT32_MAX" by simp
  let ?st1 = "st\<lparr>match_index := match_index st + 1,
             transform_expression := (transform_expression st)(match_index st \<mapsto> e)\<rparr>"
  have "match_index ?st1 + int (length es) \<le> INT32_MAX" using Cons.prems by simp
  from Cons.IH [OF this] obtain idxs st' where "allocate_all es ?st1 = Inr (idxs, st')" by blast
  then show ?case by (simp add: allocate_Inr [OF ne])
qed

text \<open>
  Claim C2. From a fresh Correlation State (counter 0, empty map), the allocations of
  \<open>N\<close> match expressions one after the other, when they all succeed, return the indices
  \<open>0, 1, ..., N - 1\<close> in this order; the indices are pairwise distinct; and afterwards the
  map holds the \<open>i\<close>-th expression at index \<open>i\<close>. They all succeed as long as \<open>N\<close> does
  not exceed the largest value of the 32-bit counter.
\<close>

theorem sequential_allocations:
  "(int (length es) \<le> INT32_MAX \<longrightarrow> (\<exists>idxs st'. allocate_all es fresh_state = Inr (idxs, st')))
   \<and> (allocate_all es fresh_state = Inr (idxs, st') \<longrightarrow>
        idxs = map int [0..<length es]
      \<and> distinct idxs
      \<and> (\<forall>i<length es. transform_expression st' (int i) = Some (es ! i))
      \<and> match_index st' = int (length es))"
proof (intro conjI impI)
  assume "int (length es) \<le> INT32_MAX"
  then have "match_index fresh_state + int (length es) \<le> INT32_MAX"
    by (simp add: fresh_state_def)
  then show "\<exists>idxs st'. allocate_all es fresh_state = Inr (idxs, st')"
    by (rule allocate_all_succeeds)
next
  assume a: "allocate_all es fresh_state = Inr (idxs, st')"
  have z: "match_index fresh_state = 0" by (simp add: fresh_state_def)
  from allocate_all_from [OF a] show "idxs = map int [0..<length es]" by (simp add: z)
  then show "distinct idxs" by (simp add: distinct_map inj_on_def)
  from allocate_all_from [OF a] show "\<forall>i<length es. transform_expression st' (int i) = Some (es ! i)"
    by (simp add: z)
  from allocate_all_from [OF a] show "match_index st' = int (length es)" by (simp add: z)
qed

theorem sequential_allocations_witness:
  "allocate_all [MatchExpression ''a'' ''g1'', MatchExpression ''b'' ''g2'', MatchExpression ''c'' ''g3'']
      fresh_state
     = Inr ([0, 1, 2],
            \<lparr>match_index = 3,
             transform_expression = [0 \<mapsto> MatchExpression ''a'' ''g1'', 1 \<mapsto> MatchExpression ''b'' ''g2'',
                                     2 \<mapsto> MatchExpression ''c'' ''g3'']\<rparr>)
   \<and> distinct [0, 1, 2 :: int]
   \<and> [0 \<mapsto> MatchExpression ''a'' ''g1'', 1 \<mapsto> MatchExpression ''b'' ''g2'',
       2 \<mapsto> MatchExpression ''c'' ''g3''] (1::int) = Some (MatchExpression ''b'' ''g2'')"
proof -
  let ?es = "[MatchExpression ''a'' ''g1'', MatchExpression ''b'' ''g2'', MatchExpression ''c'' ''g3'']"
  let ?st = "\<lparr>match_index = 3,
             transform_expression = [0 \<mapsto> MatchExpression ''a'' ''g1'', 1 \<mapsto> MatchExpression ''b'' ''g2'',
                                     2 \<mapsto> MatchExpression ''c'' ''g3'']\<rparr>"
  have a: "allocate_all ?es fresh_state = Inr ([0, 1, 2], ?st)"
    by (simp add: allocate_def fresh_state_def INT32_MAX_def)
  from sequential_allocations [of ?es "[0, 1, 2]" ?st] a
  have "distinct [0, 1, 2 :: int]"
    and "\<forall>i<length ?es. transform_expression ?st (int i) = Some (?es ! i)"
    by blast+
  from this(2) have "transform_expression ?st (int 1) = Some (?es ! 1)" by simp
  with a \<open>distinct [0, 1, 2 :: int]\<close> show ?thesis by simp
qed

section \<open>The Match Locator on whole FROM targets\<close>















section \<open>A CTE and the outer FROM target\<close>




section \<open>Table references the Match Locator refuses or leaves alone\<close>

text \<open>
  Claim C4. On a table reference whose kind is expression list, CTE reference, empty
  FROM, pivot, show-ref, column data, delim get, bound table reference or invalid, the
  Match Locator fails with \<open>UnsupportedConstruct\<close>. On a base table, and on a
  table-function call whose function expression is not named \<^verbatim>\<open>duckpgq_match\<close>, it
  returns normally. In each case the reference and the Correlation State are unchanged.
\<close>

theorem unsupported_and_untouched_refs:
  "(tableref_type r \<in> {EXPRESSION_LIST, CTE, EMPTY_FROM, PIVOT, SHOW_REF, COLUMN_DATA,
                         DELIM_GET, BOUND_TABLE_REF, INVALID}
      \<longrightarrow> duckpgq_find_match_function r st = (Inl UnsupportedConstruct, r, st))
   \<and> (tableref_type r = BASE_TABLE \<longrightarrow> duckpgq_find_match_function r st = (Inr (), r, st))
   \<and> (r = TableFunctionRef a (FunctionExpression name cs) \<and> name \<noteq> ''duckpgq_match''
      \<longrightarrow> duckpgq_find_match_function r st = (Inr (), r, st))"
  by (cases r) simp_all

theorem unsupported_and_untouched_refs_witness:
  "duckpgq_find_match_function ExpressionListRef fresh_state
     = (Inl UnsupportedConstruct, ExpressionListRef, fresh_state)
   \<and> duckpgq_find_match_function (CTERef ''c'') fresh_state
     = (Inl UnsupportedConstruct, CTERef ''c'', fresh_state)
   \<and> duckpgq_find_match_function EmptyFromRef fresh_state
     = (Inl UnsupportedConstruct, EmptyFromRef, fresh_state)
   \<and> duckpgq_find_match_function PivotRef fresh_state
     = (Inl UnsupportedConstruct, PivotRef, fresh_state)
   \<and> duckpgq_find_match_function (ShowRef DESCRIBE ''g'') fresh_state
     = (Inl UnsupportedConstruct, ShowRef DESCRIBE ''g'', fresh_state)
   \<and> duckpgq_find_match_function ColumnDataRef fresh_state
     = (Inl UnsupportedConstruct, ColumnDataRef, fresh_state)
   \<and> duckpgq_find_match_function DelimGetRef fresh_state
     = (Inl UnsupportedConstruct, DelimGetRef, fresh_state)
   \<and> duckpgq_find_match_function BoundTableRef fresh_state
     = (Inl UnsupportedConstruct, BoundTableRef, fresh_state)
   \<and> duckpgq_find_match_function InvalidRef fresh_state
     = (Inl UnsupportedConstruct, InvalidRef, fresh_state)
   \<and> duckpgq_find_match_function (BaseTableRef ''person'') fresh_state
     = (Inr (), BaseTableRef ''person'', fresh_state)
   \<and> duckpgq_find_match_function
        (TableFunctionRef ''r'' (FunctionExpression ''range'' [Some (ConstantExpression (INTEGER 3))]))
        fresh_state
     = (Inr (),
        TableFunctionRef ''r'' (FunctionExpression ''range'' [Some (ConstantExpression (INTEGER 3))]),
        fresh_state)"
  using unsupported_and_untouched_refs [of ExpressionListRef fresh_state]
    unsupported_and_untouched_refs [of "CTERef ''c''" fresh_state]
    unsupported_and_untouched_refs [of EmptyFromRef fresh_state]
    unsupported_and_untouched_refs [of PivotRef fresh_state]
    unsupported_and_untouched_refs [of "ShowRef DESCRIBE ''g''" fresh_state]
    unsupported_and_untouched_refs [of ColumnDataRef fresh_state]
    unsupported_and_untouched_refs [of DelimGetRef fresh_state]
    unsupported_and_untouched_refs [of BoundTableRef fresh_state]
    unsupported_and_untouched_refs [of InvalidRef fresh_state]
    unsupported_and_untouched_refs [of "BaseTableRef ''person''" fresh_state]
    unsupported_and_untouched_refs
      [of "TableFunctionRef ''r'' (FunctionExpression ''range'' [Some (ConstantExpression (INTEGER 3))])"
          fresh_state "''r''" "''range''" "[Some (ConstantExpression (INTEGER 3))]"]
  by simp

section \<open>The dispatcher on a select statement\<close>

lemma parse_showref_cases:
  "duckpgq_parse_showref (ShowRef t name) st =
     (if t = SUMMARY then Inr (summarize_directive name)
      else if t = DESCRIBE then Inr describe_directive
      else Inl (UnrecognizedMode t))"
  by (simp add: summarize_directive_def describe_directive_def empty_plan_result_def)

text \<open>
  Claim C5. On a select statement the Statement Dispatcher runs the Statement Locator.
  When the locator returns a directive with no bound operation, the dispatcher fails
  with \<open>MustUseBindEntryPoint\<close>; when it returns a directive with a bound operation (as
  for a show/describe meta-reference in the FROM clause), the dispatcher returns that
  directive. The tree and the state are those the locator left.
\<close>

theorem select_dispatch:
  assumes "duckpgq_find_select_statement sel st = (Inr directive, sel', st')"
  shows "duckpgq_handle_statement (SelectStmt sel) st
         = (if bind_is_null (plan_function directive) then Inl MustUseBindEntryPoint
            else Inr directive,
            SelectStmt sel', st')"
  using assms by (simp add: handle_select_def)

theorem select_dispatch_witness:
  "duckpgq_find_select_statement (SelectStatement (SelectNode (BaseTableRef ''person'') [])) fresh_state
     = (Inr empty_plan_result, SelectStatement (SelectNode (BaseTableRef ''person'') []), fresh_state)
   \<and> duckpgq_handle_statement (SelectStmt (SelectStatement (SelectNode (BaseTableRef ''person'') [])))
        fresh_state
     = (Inl MustUseBindEntryPoint,
        SelectStmt (SelectStatement (SelectNode (BaseTableRef ''person'') [])), fresh_state)
   \<and> duckpgq_find_select_statement (SelectStatement (SelectNode (ShowRef SUMMARY ''snb'') []))
        fresh_state
     = (Inr (summarize_directive ''snb''),
        SelectStatement (SelectNode (ShowRef SUMMARY ''snb'') []), fresh_state)
   \<and> duckpgq_handle_statement (SelectStmt (SelectStatement (SelectNode (ShowRef SUMMARY ''snb'') [])))
        fresh_state
     = (Inr (summarize_directive ''snb''),
        SelectStmt (SelectStatement (SelectNode (ShowRef SUMMARY ''snb'') [])), fresh_state)"
proof -
  have a: "duckpgq_find_select_statement (SelectStatement (SelectNode (BaseTableRef ''person'') []))
             fresh_state
           = (Inr empty_plan_result, SelectStatement (SelectNode (BaseTableRef ''person'') []),
              fresh_state)"
    by simp
  have b: "duckpgq_find_select_statement (SelectStatement (SelectNode (ShowRef SUMMARY ''snb'') []))
             fresh_state
           = (Inr (summarize_directive ''snb''),
              SelectStatement (SelectNode (ShowRef SUMMARY ''snb'') []), fresh_state)"
    by (simp add: parse_showref_cases del: duckpgq_parse_showref.simps)
  from select_dispatch [OF a] select_dispatch [OF b] a b show ?thesis
    by (simp add: bind_is_null_def empty_plan_result_def summarize_directive_def)
qed

section \<open>The Show/Describe Handler\<close>

text \<open>
  Claim C6. On a show/describe meta-reference the handler returns, for the mode summary,
  the directive of the summarize operation with the target table name as its only
  parameter; for the mode describe, the directive of the describe operation with no
  parameter; for any other mode it fails with \<open>UnrecognizedMode\<close> carrying that mode.
  Every directive it returns requires a valid transaction and has the return type
  \<open>QUERY_RESULT\<close>.
\<close>

theorem showref_directive:
  "duckpgq_parse_showref (ShowRef SUMMARY name) st
     = Inr \<lparr>plan_function = SummarizePropertyGraphFunction, parameters = [VARCHAR name],
            requires_valid_transaction = True, return_type = QUERY_RESULT\<rparr>
   \<and> duckpgq_parse_showref (ShowRef DESCRIBE name) st
     = Inr \<lparr>plan_function = DescribePropertyGraphFunction, parameters = [],
            requires_valid_transaction = True, return_type = QUERY_RESULT\<rparr>
   \<and> (t \<noteq> SUMMARY \<and> t \<noteq> DESCRIBE
        \<longrightarrow> duckpgq_parse_showref (ShowRef t name) st = Inl (UnrecognizedMode t))
   \<and> (duckpgq_parse_showref (ShowRef t name) st = Inr directive
        \<longrightarrow> requires_valid_transaction directive \<and> return_type directive = QUERY_RESULT)"
  by (auto simp: parse_showref_cases summarize_directive_def describe_directive_def
           simp del: duckpgq_parse_showref.simps split: if_splits)

theorem showref_directive_witness:
  "duckpgq_parse_showref (ShowRef SUMMARY ''snb'') fresh_state = Inr (summarize_directive ''snb'')
   \<and> duckpgq_parse_showref (ShowRef DESCRIBE ''snb'') fresh_state = Inr describe_directive
   \<and> duckpgq_parse_showref (ShowRef (OTHER_SHOW_TYPE 2) ''snb'') fresh_state
       = Inl (UnrecognizedMode (OTHER_SHOW_TYPE 2))
   \<and> requires_valid_transaction (summarize_directive ''snb'')
   \<and> return_type (summarize_directive ''snb'') = QUERY_RESULT"
  using showref_directive [of "''snb''" fresh_state "OTHER_SHOW_TYPE 2"]
    showref_directive [of "''snb''" fresh_state SUMMARY "summarize_directive ''snb''"]
  by (simp add: summarize_directive_def describe_directive_def)

section \<open>The dispatcher on a DROP statement\<close>

text \<open>
  Claim C7. On a DROP statement, whatever it drops, the Statement Dispatcher returns the
  directive of the drop-property-graph operation, which requires a valid transaction and
  has the return type \<open>QUERY_RESULT\<close>; the statement and the state are unchanged.
\<close>

theorem drop_always_planned:
  "duckpgq_handle_statement (DropStmt d) st
     = (Inr \<lparr>plan_function = DropPropertyGraphFunction, parameters = [],
             requires_valid_transaction = True, return_type = QUERY_RESULT\<rparr>,
        DropStmt d, st)"
  by (simp add: empty_plan_result_def)

theorem drop_always_planned_witness:
  "duckpgq_handle_statement
     (DropStmt \<lparr>drop_type = TABLE_ENTRY, drop_name = ''person'', if_not_found_ignore = True\<rparr>)
     fresh_state
   = (Inr drop_directive,
      DropStmt \<lparr>drop_type = TABLE_ENTRY, drop_name = ''person'', if_not_found_ignore = True\<rparr>,
      fresh_state)"
  using drop_always_planned
    [of "\<lparr>drop_type = TABLE_ENTRY, drop_name = ''person'', if_not_found_ignore = True\<rparr>" fresh_state]
  by (simp add: drop_directive_def)

section \<open>The parse hook\<close>

text \<open>
  Claim C8, as stated, says that the parse hook fails with \<open>MultipleStatements\<close> exactly
  when the text holds more than one statement. The test of line 30 is
  \<^verbatim>\<open>statements.size() != 1\<close>: the text \<^verbatim>\<open>-\<close>, which is empty once the marker is stripped,
  holds no statement and fails with \<open>MultipleStatements\<close> as well.
\<close>

theorem parse_zero_statements_counterexample:
  "no_statements (strip_marker ''-'') = Inr []
   \<and> duckpgq_parse no_statements ''-'' = Inl MultipleStatements
   \<and> \<not> 1 < length ([] :: sql_statement list)"
  by (simp add: duckpgq_parse_def no_statements_def)

text \<open>
  Claim C8, amended. When the grammar parser returns the statements of the
  marker-stripped text, the parse hook fails with \<open>MultipleStatements\<close> if and only if
  their number is not one (none, or more than one); when there is exactly one statement,
  the hook succeeds and wraps that statement as parse data.
\<close>

theorem parse_exactly_one:
  assumes "ParseQuery (strip_marker query) = Inr statements"
  shows "(duckpgq_parse ParseQuery query = Inl MultipleStatements \<longleftrightarrow> length statements \<noteq> 1)
       \<and> (length statements = 1
            \<longrightarrow> duckpgq_parse ParseQuery query = Inr (DuckPGQParseData (hd statements)))"
  using assms by (cases statements) (auto simp: duckpgq_parse_def)

theorem parse_exactly_one_witness:
  "one_statement (strip_marker ''-pragma foo'') = Inr [PragmaStmt]
   \<and> duckpgq_parse one_statement ''-pragma foo'' = Inr (DuckPGQParseData PragmaStmt)
   \<and> two_statements (strip_marker ''a; b'') = Inr [PragmaStmt, DeleteStmt]
   \<and> duckpgq_parse two_statements ''a; b'' = Inl MultipleStatements
   \<and> duckpgq_parse no_statements '''' = Inl MultipleStatements"
proof -
  have a: "one_statement (strip_marker ''-pragma foo'') = Inr [PragmaStmt]"
    by (simp add: one_statement_def)
  have b: "two_statements (strip_marker ''a; b'') = Inr [PragmaStmt, DeleteStmt]"
    by (simp add: two_statements_def)
  have c: "no_statements (strip_marker '''') = Inr []"
    by (simp add: no_statements_def)
  from parse_exactly_one [of one_statement "''-pragma foo''" "[PragmaStmt]"]
    parse_exactly_one [of two_statements "''a; b''" "[PragmaStmt, DeleteStmt]"]
    parse_exactly_one [of no_statements "''''" "[]"] a b c
  show ?thesis by simp
qed

section \<open>The dispatcher on a COPY statement\<close>

text \<open>
  Claim C9, as stated, says that every COPY statement ends in \<open>MustUseBindEntryPoint\<close>.
  The throw of line 173 is reached only when the Match Locator of line 172 returns: on
  \<^verbatim>\<open>COPY (SELECT 42) TO ...\<close>, whose FROM target is the empty FROM, the locator throws
  \<open>UnsupportedConstruct\<close> and that is the dispatcher's error.
\<close>

theorem copy_empty_from_counterexample:
  "duckpgq_handle_statement (CopyStmt (SelectNode EmptyFromRef [])) fresh_state
     = (Inl UnsupportedConstruct, CopyStmt (SelectNode EmptyFromRef []), fresh_state)
   \<and> UnsupportedConstruct \<noteq> MustUseBindEntryPoint"
  by simp

text \<open>
  Claim C9, amended. On a COPY statement whose source is a plain select node, the
  Statement Dispatcher runs the Match Locator on the FROM target of that node and keeps
  what the locator did to the tree and to the Correlation State. If the locator returns,
  the dispatcher fails with \<open>MustUseBindEntryPoint\<close>; if the locator fails, the dispatcher
  fails with the locator's error. In no case does it return a directive.
\<close>

theorem copy_never_planned:
  "fst (duckpgq_handle_statement (CopyStmt (SelectNode ft ctes)) st) \<noteq> Inr directive
   \<and> (duckpgq_find_match_function ft st = (Inr u, ft', st')
        \<longrightarrow> duckpgq_handle_statement (CopyStmt (SelectNode ft ctes)) st
            = (Inl MustUseBindEntryPoint, CopyStmt (SelectNode ft' ctes), st'))
   \<and> (duckpgq_find_match_function ft st = (Inl e, ft', st')
        \<longrightarrow> duckpgq_handle_statement (CopyStmt (SelectNode ft ctes)) st
            = (Inl e, CopyStmt (SelectNode ft' ctes), st'))"
  by (simp split: prod.splits sum.splits)

theorem copy_never_planned_witness:
  "duckpgq_find_match_function (match_call ''unnamed'' ''g'' ''snb'') fresh_state
     = (Inr (), indexed_call ''g'' 0,
        \<lparr>match_index = 1, transform_expression = [0 \<mapsto> MatchExpression ''g'' ''snb'']\<rparr>)
   \<and> duckpgq_handle_statement (CopyStmt (SelectNode (match_call ''unnamed'' ''g'' ''snb'') []))
        fresh_state
     = (Inl MustUseBindEntryPoint, CopyStmt (SelectNode (indexed_call ''g'' 0) []),
        \<lparr>match_index = 1, transform_expression = [0 \<mapsto> MatchExpression ''g'' ''snb'']\<rparr>)
   \<and> duckpgq_find_match_function PivotRef fresh_state
     = (Inl UnsupportedConstruct, PivotRef, fresh_state)
   \<and> duckpgq_handle_statement (CopyStmt (SelectNode PivotRef [])) fresh_state
     = (Inl UnsupportedConstruct, CopyStmt (SelectNode PivotRef []), fresh_state)"
proof -
  let ?st1 = "\<lparr>match_index = 1, transform_expression = [0 \<mapsto> MatchExpression ''g'' ''snb'']\<rparr>"
  have a: "allocate (MatchExpression ''g'' ''snb'') fresh_state = Inr (0, ?st1)"
    by (simp add: allocate_def fresh_state_def INT32_MAX_def)
  have b: "duckpgq_find_match_function (match_call ''unnamed'' ''g'' ''snb'') fresh_state
             = (Inr (), indexed_call ''g'' 0, ?st1)"
    by (rule match_call_located [OF a])
  have c: "duckpgq_find_match_function PivotRef fresh_state
             = (Inl UnsupportedConstruct, PivotRef, fresh_state)"
    by simp
  from copy_never_planned [where st = fresh_state and ft = "match_call ''unnamed'' ''g'' ''snb''"
                              and ft' = "indexed_call ''g'' 0" and st' = ?st1 and ctes = "[]"]
    copy_never_planned [where st = fresh_state and ft = PivotRef and e = UnsupportedConstruct
                              and ft' = PivotRef and st' = fresh_state and ctes = "[]"]
    b c
  show ?thesis by simp
qed

section \<open>The dispatcher on EXPLAIN, INSERT and CREATE TABLE ... AS\<close>

text \<open>
  Claim C10. On an EXPLAIN statement, an INSERT statement and a CREATE statement whose
  payload is a create-table-as-select, the Statement Dispatcher calls itself on the
  embedded statement and never returns a directive: if the inner call fails, its error
  is the outcome; if the inner call returns a directive, the directive is dropped and
  the outcome is \<open>NotImplemented\<close> with the kind of the outer statement. The state
  afterwards is the one the inner call left.
\<close>

theorem wrappers_never_planned:
  "fst (duckpgq_handle_statement (ExplainStmt inner) st)
     = (case fst (duckpgq_handle_statement inner st) of
          Inl e \<Rightarrow> Inl e | Inr discarded \<Rightarrow> Inl (NotImplemented EXPLAIN_STATEMENT))
   \<and> fst (duckpgq_handle_statement (InsertStmt table sel) st)
     = (case fst (duckpgq_handle_statement (SelectStmt sel) st) of
          Inl e \<Rightarrow> Inl e | Inr discarded \<Rightarrow> Inl (NotImplemented INSERT_STATEMENT))
   \<and> fst (duckpgq_handle_statement (CreateStmt (CreateTableInfo table sel)) st)
     = (case fst (duckpgq_handle_statement (SelectStmt sel) st) of
          Inl e \<Rightarrow> Inl e | Inr discarded \<Rightarrow> Inl (NotImplemented CREATE_STATEMENT))
   \<and> fst (duckpgq_handle_statement (ExplainStmt inner) st) \<noteq> Inr directive
   \<and> fst (duckpgq_handle_statement (InsertStmt table sel) st) \<noteq> Inr directive
   \<and> fst (duckpgq_handle_statement (CreateStmt (CreateTableInfo table sel)) st) \<noteq> Inr directive
   \<and> snd (snd (duckpgq_handle_statement (ExplainStmt inner) st))
     = snd (snd (duckpgq_handle_statement inner st))
   \<and> snd (snd (duckpgq_handle_statement (InsertStmt table sel) st))
     = snd (snd (duckpgq_handle_statement (SelectStmt sel) st))
   \<and> snd (snd (duckpgq_handle_statement (CreateStmt (CreateTableInfo table sel)) st))
     = snd (snd (duckpgq_handle_statement (SelectStmt sel) st))"
  by (simp split: prod.splits sum.splits)

theorem wrappers_never_planned_witness:
  "duckpgq_handle_statement
     (ExplainStmt (DropStmt \<lparr>drop_type = PROPERTY_GRAPH_ENTRY, drop_name = ''snb'',
                             if_not_found_ignore = False\<rparr>)) fresh_state
     = (Inl (NotImplemented EXPLAIN_STATEMENT),
        ExplainStmt (DropStmt \<lparr>drop_type = PROPERTY_GRAPH_ENTRY, drop_name = ''snb'',
                                if_not_found_ignore = False\<rparr>), fresh_state)
   \<and> fst (duckpgq_handle_statement
            (InsertStmt ''t'' (SelectStatement (SelectNode (match_call ''unnamed'' ''g'' ''snb'') [])))
            fresh_state)
     = Inl MustUseBindEntryPoint
   \<and> fst (duckpgq_handle_statement
            (CreateStmt (CreateTableInfo ''t'' (SelectStatement (SelectNode (ShowRef SUMMARY ''snb'') []))))
            fresh_state)
     = Inl (NotImplemented CREATE_STATEMENT)"
proof -
  let ?drop = "DropStmt \<lparr>drop_type = PROPERTY_GRAPH_ENTRY, drop_name = ''snb'',
                         if_not_found_ignore = False\<rparr>"
  let ?sel1 = "SelectStatement (SelectNode (match_call ''unnamed'' ''g'' ''snb'') [])"
  let ?sel2 = "SelectStatement (SelectNode (ShowRef SUMMARY ''snb'') [])"
  have a: "allocate (MatchExpression ''g'' ''snb'') fresh_state
             = Inr (0, \<lparr>match_index = 1,
                        transform_expression = [0 \<mapsto> MatchExpression ''g'' ''snb'']\<rparr>)"
    by (simp add: allocate_def fresh_state_def INT32_MAX_def)
  have ty: "tableref_type (match_call ''unnamed'' ''g'' ''snb'') \<noteq> SHOW_REF"
    by (simp add: match_call_def)
  have s1: "fst (duckpgq_handle_statement (SelectStmt ?sel1) fresh_state) = Inl MustUseBindEntryPoint"
    by (simp add: handle_select_def ty match_call_located [OF a] bind_is_null_def
          empty_plan_result_def)
  have s2: "fst (duckpgq_handle_statement (SelectStmt ?sel2) fresh_state)
              = Inr (summarize_directive ''snb'')"
    by (simp add: handle_select_def bind_is_null_def empty_plan_result_def summarize_directive_def)
  have d: "duckpgq_handle_statement ?drop fresh_state = (Inr drop_directive, ?drop, fresh_state)"
    by (simp add: drop_directive_def empty_plan_result_def)
  have e: "duckpgq_handle_statement (ExplainStmt ?drop) fresh_state
     = (Inl (NotImplemented EXPLAIN_STATEMENT), ExplainStmt ?drop, fresh_state)"
    by (simp add: d)
  from wrappers_never_planned [of ?drop fresh_state "''t''" ?sel1]
    wrappers_never_planned [of ?drop fresh_state "''t''" ?sel2] s1 s2 e
  show ?thesis by simp
qed

end
